theory Spec2Isabelle
  imports Main "HOL-Library.Multiset"
begin

section \<open>Time and durations\<close>

text \<open>
  A Go \<^verbatim>\<open>time.Duration\<close> is a signed 64-bit count of nanoseconds. Durations are
  modelled as \<open>int\<close>, with the 64-bit wrap-around of multiplication and the saturation of
  \<^verbatim>\<open>Time.Sub\<close> written out. An instant (\<^verbatim>\<open>time.Time\<close>) is the number of
  nanoseconds since the Unix epoch.
\<close>

definition minDuration :: int where
  "minDuration = - (2 ^ 63)"

definition maxDuration :: int where
  "maxDuration = 2 ^ 63 - 1"

definition wrap64 :: "int \<Rightarrow> int" where
  "wrap64 x = (x + 2 ^ 63) mod 2 ^ 64 - 2 ^ 63"

definition sat64 :: "int \<Rightarrow> int" where
  "sat64 x = (if x < minDuration then minDuration else if maxDuration < x then maxDuration else x)"

definition Millisecond :: int where
  "Millisecond = 1000000"

definition Second :: int where
  "Second = 1000000000"

definition Minute :: int where
  "Minute = 60 * Second"

text \<open>\<^verbatim>\<open>t.Sub(u)\<close>: the difference, saturated to the range of a Duration.\<close>

definition Sub :: "int \<Rightarrow> int \<Rightarrow> int" where
  "Sub t u = sat64 (t - u)"

text \<open>\<^verbatim>\<open>time.Unix(sec, 0)\<close> and \<^verbatim>\<open>t.Unix()\<close>.\<close>

definition Unix :: "int \<Rightarrow> int" where
  "Unix sec = sec * Second"

definition UnixSeconds :: "int \<Rightarrow> int" where
  "UnixSeconds t = t div Second"

text \<open>\<^verbatim>\<open>time.Since(t)\<close>, with the reading of the clock passed as \<open>now\<close>.\<close>

definition Since :: "int \<Rightarrow> int \<Rightarrow> int" where
  "Since now t = Sub now t"

section \<open>The failure store (store.go)\<close>

text \<open>
  One row of the table \<^verbatim>\<open>failures(model, failed_at, failure_type, failure_count)\<close>;
  \<open>model\<close> is the primary key, so the table is a map from model names to rows.
\<close>

record failure_row =
  failed_at :: int
  failure_type :: string
  failure_count :: int

text \<open>
  \<open>db_error\<close> stands for a failing connection: when it is \<open>Some e\<close>, every statement
  returns the error \<open>e\<close> and leaves the table as it is.
\<close>

record FailureStore =
  db :: "string \<rightharpoonup> failure_row"
  db_error :: "string option"
  defaultCooldown :: int
  rateLimitCooldown :: int

text \<open>The store as \<^verbatim>\<open>NewFailureStore\<close> opens it when no environment variable is set.\<close>

definition NewFailureStore :: "(string \<rightharpoonup> failure_row) \<Rightarrow> FailureStore" where
  "NewFailureStore table =
     \<lparr>db = table, db_error = None, defaultCooldown = 5 * Minute, rateLimitCooldown = 1 * Minute\<rparr>"

definition MarkFailureWithType :: "FailureStore \<Rightarrow> int \<Rightarrow> string \<Rightarrow> string \<Rightarrow> FailureStore \<times> string option" where
  "MarkFailureWithType s now model failureType =
     (case db_error s of
        Some e \<Rightarrow> (s, Some e)
      | None \<Rightarrow>
          (case db s model of
             None \<Rightarrow>
               (s\<lparr>db := (db s)(model \<mapsto>
                    \<lparr>failed_at = UnixSeconds now, failure_type = failureType, failure_count = 1\<rparr>)\<rparr>, None)
           | Some row \<Rightarrow>
               (s\<lparr>db := (db s)(model \<mapsto>
                    \<lparr>failed_at = UnixSeconds now, failure_type = failureType,
                     failure_count = failure_count row + 1\<rparr>)\<rparr>, None)))"

definition MarkFailure :: "FailureStore \<Rightarrow> int \<Rightarrow> string \<Rightarrow> FailureStore \<times> string option" where
  "MarkFailure s now model = MarkFailureWithType s now model ''general''"

definition min_int :: "int \<Rightarrow> int \<Rightarrow> int" where
  "min_int a b = (if a < b then a else b)"

text \<open>
  \<^verbatim>\<open>ShouldSkip\<close> returns the pair \<^verbatim>\<open>(bool, error)\<close>. \<open>now\<close> is the clock reading that
  \<^verbatim>\<open>time.Since\<close> takes.
\<close>

definition ShouldSkip :: "FailureStore \<Rightarrow> int \<Rightarrow> string \<Rightarrow> bool \<times> string option" where
  "ShouldSkip s now model =
     (case db_error s of
        Some e \<Rightarrow> (False, Some e)
      | None \<Rightarrow>
          (case db s model of
             None \<Rightarrow> (False, None)
           | Some row \<Rightarrow>
               (let cooldown =
                      (if failure_type row = ''rate_limit'' then rateLimitCooldown s
                       else if failure_count row > 1
                            then wrap64 (defaultCooldown s * min_int (failure_count row) 5)
                            else defaultCooldown s)
                in if Since now (Unix (failed_at row)) < cooldown then (True, None)
                   else (False, None))))"

definition ClearFailure :: "FailureStore \<Rightarrow> string \<Rightarrow> FailureStore \<times> string option" where
  "ClearFailure s model =
     (case db_error s of
        Some e \<Rightarrow> (s, Some e)
      | None \<Rightarrow>
          (case db s model of
             None \<Rightarrow> (s, None)
           | Some row \<Rightarrow>
               (s\<lparr>db := (db s)(model \<mapsto> row\<lparr>failure_count := 0, failure_type := ''cleared''\<rparr>)\<rparr>,
                None)))"

definition ResetAllFailures :: "FailureStore \<Rightarrow> FailureStore \<times> string option" where
  "ResetAllFailures s =
     (case db_error s of Some e \<Rightarrow> (s, Some e) | None \<Rightarrow> (s\<lparr>db := Map.empty\<rparr>, None))"

section \<open>Strings\<close>

text \<open>
  A Go string is a sequence of bytes; \<open>string\<close> is a list of 8-bit characters.
\<close>

definition HasPrefix :: "string \<Rightarrow> string \<Rightarrow> bool" where
  "HasPrefix s prefix = (take (length prefix) s = prefix)"

fun Contains :: "string \<Rightarrow> string \<Rightarrow> bool" where
  "Contains [] substr = (substr = [])"
| "Contains (c # s) substr = (HasPrefix (c # s) substr \<or> Contains s substr)"

text \<open>
  \<^verbatim>\<open>strings.Split(s, sep)\<close> for a separator of one byte, which is what both call sites
  pass (\<^verbatim>\<open>"/"\<close> and \<^verbatim>\<open>"\n"\<close>). The result is never empty.
\<close>

fun Split :: "string \<Rightarrow> char \<Rightarrow> string list" where
  "Split [] sep = [[]]"
| "Split (c # s) sep =
     (if c = sep then [] # Split s sep
      else (case Split s sep of [] \<Rightarrow> [[c]] | part # parts \<Rightarrow> (c # part) # parts))"

fun Join :: "string list \<Rightarrow> string \<Rightarrow> string" where
  "Join [] sep = []"
| "Join [x] sep = x"
| "Join (x # y # xs) sep = x @ sep @ Join (y # xs) sep"

text \<open>
  \<^verbatim>\<open>strings.TrimSpace\<close> removes the leading and the trailing white space, as Unicode
  defines it, from a UTF-8 string: the six ASCII characters below and the code points
  U+0085, U+00A0, U+1680, U+2000 to U+200A, U+2028, U+2029, U+202F, U+205F and U+3000,
  here in their UTF-8 encodings of two and three bytes. A byte that starts no such
  encoding stops the trimming, on either side.
\<close>

definition asciiSpace :: "char \<Rightarrow> bool" where
  "asciiSpace c = (c = CHR 0x09 \<or> c = CHR 0x0A \<or> c = CHR 0x0B \<or> c = CHR 0x0C \<or> c = CHR 0x0D \<or> c = CHR 0x20)"

definition space2 :: "char \<Rightarrow> char \<Rightarrow> bool" where
  "space2 c d = (c = CHR 0xC2 \<and> (d = CHR 0x85 \<or> d = CHR 0xA0))"

definition space3 :: "char \<Rightarrow> char \<Rightarrow> char \<Rightarrow> bool" where
  "space3 c d e =
     ((c = CHR 0xE1 \<and> d = CHR 0x9A \<and> e = CHR 0x80) \<or>
      (c = CHR 0xE2 \<and> d = CHR 0x80 \<and>
         (((0x80::nat) \<le> of_char e \<and> of_char e \<le> (0x8A::nat)) \<or> e = CHR 0xA8 \<or> e = CHR 0xA9 \<or> e = CHR 0xAF)) \<or>
      (c = CHR 0xE2 \<and> d = CHR 0x81 \<and> e = CHR 0x9F) \<or>
      (c = CHR 0xE3 \<and> d = CHR 0x80 \<and> e = CHR 0x80))"

fun TrimLeftSpace :: "string \<Rightarrow> string" where
  "TrimLeftSpace (c # d # e # s) =
     (if asciiSpace c then TrimLeftSpace (d # e # s)
      else if space2 c d then TrimLeftSpace (e # s)
      else if space3 c d e then TrimLeftSpace s
      else c # d # e # s)"
| "TrimLeftSpace [c, d] =
     (if asciiSpace c then TrimLeftSpace [d] else if space2 c d then [] else [c, d])"
| "TrimLeftSpace [c] = (if asciiSpace c then [] else [c])"
| "TrimLeftSpace [] = []"

text \<open>The same from the right, on the reversed string: the encodings are read backwards.\<close>

fun TrimLeftSpaceRev :: "string \<Rightarrow> string" where
  "TrimLeftSpaceRev (e # d # c # s) =
     (if asciiSpace e then TrimLeftSpaceRev (d # c # s)
      else if space2 d e then TrimLeftSpaceRev (c # s)
      else if space3 c d e then TrimLeftSpaceRev s
      else e # d # c # s)"
| "TrimLeftSpaceRev [e, d] =
     (if asciiSpace e then TrimLeftSpaceRev [d] else if space2 d e then [] else [e, d])"
| "TrimLeftSpaceRev [e] = (if asciiSpace e then [] else [e])"
| "TrimLeftSpaceRev [] = []"

definition TrimRightSpace :: "string \<Rightarrow> string" where
  "TrimRightSpace s = rev (TrimLeftSpaceRev (rev s))"

definition TrimSpace :: "string \<Rightarrow> string" where
  "TrimSpace s = TrimRightSpace (TrimLeftSpace s)"

text \<open>
  \<^verbatim>\<open>strings.ToLower\<close>: on a string of ASCII bytes it maps \<open>A\<close> to \<open>Z\<close> to lower case.
  On any other string it goes through the Unicode case tables, which are not part of
  this repository: that path is the parameter \<open>unicodeToLower\<close>.
\<close>

definition isASCII :: "string \<Rightarrow> bool" where
  "isASCII s = list_all (\<lambda>c. (of_char c :: nat) < 0x80) s"

definition lowerByte :: "char \<Rightarrow> char" where
  "lowerByte c = (if (65::nat) \<le> of_char c \<and> of_char c \<le> (90::nat) then char_of (of_char c + (32::nat)) else c)"

definition ToLower :: "(string \<Rightarrow> string) \<Rightarrow> string \<Rightarrow> string" where
  "ToLower unicodeToLower s = (if isASCII s then map lowerByte s else unicodeToLower s)"

section \<open>What lies outside the repository\<close>

text \<open>
  A Go \<^verbatim>\<open>error\<close> is its message, \<open>None\<close> for \<^verbatim>\<open>nil\<close>. A call that returns
  \<^verbatim>\<open>(value, error)\<close> with one of the two set is a sum, \<open>Inl\<close> the message of the error.
\<close>

type_synonym message = "string \<times> string"

record ChatCompletionChoice =
  MessageContent :: string
  FinishReason :: string

record ChatCompletionResponse =
  Choices :: "ChatCompletionChoice list"
  PromptTokens :: int
  CompletionTokens :: int
  TotalTokens :: int

text \<open>
  A stream hands out its chunks through \<^verbatim>\<open>Recv\<close> and then ends, with \<^verbatim>\<open>io.EOF\<close>
  or with another error. A chunk is its list of choices.
\<close>

record ChatCompletionStreamChoice =
  DeltaContent :: string
  StreamFinishReason :: string

datatype stream_end = EOF | RecvError string

record ChatCompletionStream =
  chunks :: "ChatCompletionStreamChoice list list"
  ending :: stream_end

record RateLimiter =
  lastRequestTime :: int
  requestCount :: int
  resetTime :: int
  backoffUntil :: int
  failureCount :: int
  maxRetries :: int
  baseDelay :: int
  maxDelay :: int

record item =
  item_id :: string
  item_ctx :: int

text \<open>
  The world the server runs in:
  \<^item> \<open>clock n\<close> is what the \<open>n\<close>-th reading of \<^verbatim>\<open>time.Now\<close> returns; the time that
    sleeping and waiting for the upstream take shows in the readings that follow;
  \<^item> \<open>Chat n\<close> and \<open>ChatStream n\<close> are the answers of the provider to the call that
    comes after \<open>n\<close> earlier ones;
  \<^item> \<open>calculateBackoff\<close> is the float64 computation of the limiter's method of that name,
    from the limiter and the clock reading of its jitter;
  \<^item> \<open>unicodeToLower\<close> is the path of \<^verbatim>\<open>strings.ToLower\<close> through the Unicode tables;
  \<^item> \<open>sortSlice\<close> is \<^verbatim>\<open>sort.Slice\<close>, which sorts by the given \<open>less\<close> and is not
    stable.
\<close>

record World =
  clock :: "nat \<Rightarrow> int"
  Chat :: "nat \<Rightarrow> message list \<Rightarrow> string \<Rightarrow> string + ChatCompletionResponse"
  ChatStream :: "nat \<Rightarrow> message list \<Rightarrow> string \<Rightarrow> string + ChatCompletionStream"
  calculateBackoff :: "RateLimiter \<Rightarrow> int \<Rightarrow> int"
  unicodeToLower :: "string \<Rightarrow> string"
  sortSlice :: "(item \<Rightarrow> item \<Rightarrow> bool) \<Rightarrow> item list \<Rightarrow> item list"

section \<open>Classification of errors (store.go)\<close>

definition isRateLimitError :: "World \<Rightarrow> string option \<Rightarrow> bool" where
  "isRateLimitError w err =
     (case err of
        None \<Rightarrow> False
      | Some msg \<Rightarrow>
          (let errStr = ToLower (unicodeToLower w) msg
           in Contains errStr ''rate limit'' \<or>
              Contains errStr ''429'' \<or>
              Contains errStr ''too many requests'' \<or>
              Contains errStr ''quota exceeded''))"

definition isPermanentError :: "World \<Rightarrow> string option \<Rightarrow> bool" where
  "isPermanentError w err =
     (case err of
        None \<Rightarrow> False
      | Some msg \<Rightarrow>
          (let errStr = ToLower (unicodeToLower w) msg
           in if Contains errStr ''404'' \<or> Contains errStr ''not found'' then True
              else if Contains errStr ''no endpoints found'' then True
              else if Contains errStr ''model not available'' \<or> Contains errStr ''model does not exist''
                   then True
              else False))"

section \<open>The server and its trackers\<close>

record PermanentFailureTracker =
  permanentFailed :: "string \<rightharpoonup> int"
  temporaryFailed :: "string \<rightharpoonup> int"

definition NewPermanentFailureTracker :: PermanentFailureTracker where
  "NewPermanentFailureTracker = \<lparr>permanentFailed = Map.empty, temporaryFailed = Map.empty\<rparr>"

definition IsPermanentlyFailed :: "PermanentFailureTracker \<Rightarrow> string \<Rightarrow> bool" where
  "IsPermanentlyFailed t model = (permanentFailed t model \<noteq> None)"

text \<open>The zero \<^verbatim>\<open>time.Time\<close> is the first of January of the year 1.\<close>

definition zeroTime :: int where
  "zeroTime = - 62135596800 * Second"

definition NewRateLimiter :: RateLimiter where
  "NewRateLimiter =
     \<lparr>lastRequestTime = zeroTime, requestCount = 0, resetTime = zeroTime, backoffUntil = zeroTime,
      failureCount = 0, maxRetries = 3, baseDelay = 100 * Millisecond, maxDelay = 10 * Second\<rparr>"

record GlobalRateLimiter =
  limiters :: "string \<rightharpoonup> RateLimiter"
  globalWait :: int
  lastGlobal :: int

definition NewGlobalRateLimiter :: GlobalRateLimiter where
  "NewGlobalRateLimiter = \<lparr>limiters = Map.empty, globalWait = 50 * Millisecond, lastGlobal = zeroTime\<rparr>"

record Server =
  FreeMode :: bool
  freeModels :: "string list"
  modelFilter :: "string set"
  failureStore :: FailureStore
  globalLimiter :: GlobalRateLimiter
  permanentFails :: PermanentFailureTracker

text \<open>
  A running server, with what the run leaves behind: the number of clock readings so
  far, the durations passed to \<^verbatim>\<open>time.Sleep\<close>, and the calls made to the provider.
  A call is recorded with the place it was made from, the model, and the error it
  returned (\<open>None\<close> when it succeeded).
\<close>

datatype stage = Direct | Sweep

datatype event = Call (stageOf: stage) (modelOf: string) (errorOf: "string option")

record Process = Server +
  ticks :: nat
  sleeps :: "int list"
  trace :: "event list"

definition readClock :: "World \<Rightarrow> Process \<Rightarrow> int \<times> Process" where
  "readClock w p = (clock w (ticks p), p\<lparr>ticks := ticks p + 1\<rparr>)"

definition Sleep :: "int \<Rightarrow> Process \<Rightarrow> Process" where
  "Sleep d p = p\<lparr>sleeps := sleeps p @ [d]\<rparr>"

definition callProvider ::
  "stage \<Rightarrow> (nat \<Rightarrow> message list \<Rightarrow> string \<Rightarrow> string + 'r) \<Rightarrow> message list \<Rightarrow> string \<Rightarrow> Process
     \<Rightarrow> (string + 'r) \<times> Process" where
  "callProvider st call msgs modelName p =
     (let r = call (length (trace p)) msgs modelName
      in (r, p\<lparr>trace := trace p @ [Call st modelName (case r of Inl e \<Rightarrow> Some e | Inr _ \<Rightarrow> None)]\<rparr>))"

section \<open>The rate limiters (store.go)\<close>

text \<open>
  \<^verbatim>\<open>Wait\<close> returns without touching \<open>lastRequestTime\<close> when it has slept out a backoff.
\<close>

definition Wait :: "World \<Rightarrow> RateLimiter \<Rightarrow> Process \<Rightarrow> RateLimiter \<times> Process" where
  "Wait w r p =
     (let (now, p1) = readClock w p
      in if now < backoffUntil r then (r, Sleep (Sub (backoffUntil r) now) p1)
         else (let minInterval = 50 * Millisecond;
                   elapsed = Sub now (lastRequestTime r);
                   p2 = (if elapsed < minInterval then Sleep (minInterval - elapsed) p1 else p1);
                   (now2, p3) = readClock w p2
               in (r\<lparr>lastRequestTime := now2\<rparr>, p3)))"

definition RecordSuccess :: "RateLimiter \<Rightarrow> RateLimiter" where
  "RecordSuccess r = r\<lparr>failureCount := 0, backoffUntil := zeroTime\<rparr>"

definition RecordFailure :: "World \<Rightarrow> RateLimiter \<Rightarrow> string option \<Rightarrow> Process \<Rightarrow> RateLimiter \<times> Process" where
  "RecordFailure w r err p =
     (let r1 = r\<lparr>failureCount := failureCount r + 1\<rparr>
      in if isRateLimitError w err
         then (let (jitterNow, p1) = readClock w p;
                   backoffDuration = calculateBackoff w r1 jitterNow;
                   (now, p2) = readClock w p1
               in (r1\<lparr>backoffUntil := now + backoffDuration\<rparr>, p2))
         else (r1, p))"

definition ShouldRetry :: "RateLimiter \<Rightarrow> bool" where
  "ShouldRetry r = (failureCount r < maxRetries r)"

text \<open>
  The registry maps a model to a pointer to its limiter; \<open>setLimiter\<close> is the write
  through that pointer.
\<close>

definition setLimiter :: "string \<Rightarrow> RateLimiter \<Rightarrow> Process \<Rightarrow> Process" where
  "setLimiter model r p =
     p\<lparr>globalLimiter := (globalLimiter p)\<lparr>limiters := (limiters (globalLimiter p))(model \<mapsto> r)\<rparr>\<rparr>"

definition GetLimiter :: "string \<Rightarrow> Process \<Rightarrow> RateLimiter \<times> Process" where
  "GetLimiter model p =
     (case limiters (globalLimiter p) model of
        Some limiter \<Rightarrow> (limiter, p)
      | None \<Rightarrow> (NewRateLimiter, setLimiter model NewRateLimiter p))"

definition WaitGlobal :: "World \<Rightarrow> Process \<Rightarrow> Process" where
  "WaitGlobal w p =
     (let (now, p1) = readClock w p;
          elapsed = Sub now (lastGlobal (globalLimiter p1));
          p2 = (if elapsed < globalWait (globalLimiter p1)
                then Sleep (globalWait (globalLimiter p1) - elapsed) p1 else p1);
          (now2, p3) = readClock w p2
      in p3\<lparr>globalLimiter := (globalLimiter p3)\<lparr>lastGlobal := now2\<rparr>\<rparr>)"

section \<open>The routing engine\<close>

definition MarkPermanentFailure :: "World \<Rightarrow> string \<Rightarrow> Process \<Rightarrow> Process" where
  "MarkPermanentFailure w model p =
     (let (now, p1) = readClock w p
      in p1\<lparr>permanentFails :=
              (permanentFails p1)\<lparr>permanentFailed := (permanentFailed (permanentFails p1))(model \<mapsto> now)\<rparr>\<rparr>)"

text \<open>
  The calls of the engine into the failure store. The engine drops the error that
  \<^verbatim>\<open>MarkFailure\<close>, \<^verbatim>\<open>MarkFailureWithType\<close> and \<^verbatim>\<open>ClearFailure\<close> return. The clock is
  read once for every \<^verbatim>\<open>ShouldSkip\<close> (the source reads it only when it has found a row).
\<close>

definition storeShouldSkip :: "World \<Rightarrow> string \<Rightarrow> Process \<Rightarrow> (bool \<times> string option) \<times> Process" where
  "storeShouldSkip w model p =
     (let (now, p1) = readClock w p in (ShouldSkip (failureStore p1) now model, p1))"

definition storeMarkFailureWithType :: "World \<Rightarrow> string \<Rightarrow> string \<Rightarrow> Process \<Rightarrow> Process" where
  "storeMarkFailureWithType w model failureType p =
     (let (now, p1) = readClock w p
      in p1\<lparr>failureStore := fst (MarkFailureWithType (failureStore p1) now model failureType)\<rparr>)"

definition storeMarkFailure :: "World \<Rightarrow> string \<Rightarrow> Process \<Rightarrow> Process" where
  "storeMarkFailure w model p =
     (let (now, p1) = readClock w p
      in p1\<lparr>failureStore := fst (MarkFailure (failureStore p1) now model)\<rparr>)"

definition storeClearFailure :: "string \<Rightarrow> Process \<Rightarrow> Process" where
  "storeClearFailure model p = p\<lparr>failureStore := fst (ClearFailure (failureStore p) model)\<rparr>"

definition isModelInFilter :: "Process \<Rightarrow> string \<Rightarrow> bool" where
  "isModelInFilter p modelName =
     (if modelFilter p = {} then True else (\<exists>pattern \<in> modelFilter p. Contains modelName pattern))"

text \<open>\<^verbatim>\<open>parts := strings.Split(m, "/"); displayName := parts[len(parts)-1]\<close>\<close>

definition displayNameOf :: "string \<Rightarrow> string" where
  "displayNameOf m = last (Split m CHR ''/'')"

fun resolveFrom :: "Process \<Rightarrow> string list \<Rightarrow> string \<Rightarrow> string" where
  "resolveFrom p [] displayName = displayName"
| "resolveFrom p (fullModel # rest) displayName =
     (if displayNameOf fullModel = displayName
      then (if \<not> isModelInFilter p displayName then resolveFrom p rest displayName else fullModel)
      else resolveFrom p rest displayName)"

definition resolveDisplayNameToFullModel :: "Process \<Rightarrow> string \<Rightarrow> string" where
  "resolveDisplayNameToFullModel p displayName = resolveFrom p (freeModels p) displayName"

fun contains :: "string list \<Rightarrow> string \<Rightarrow> bool" where
  "contains [] item = False"
| "contains (s # slice) item = (if s = item then True else contains slice item)"

text \<open>
  One pass of the loop of \<^verbatim>\<open>getFreeChat\<close> and \<^verbatim>\<open>getFreeStream\<close>, which differ in the
  method of the provider they call (\<open>call\<close>) and in nothing else. \<open>Skipped\<close> is a
  \<^verbatim>\<open>continue\<close> before the call, \<open>Failed\<close> the \<^verbatim>\<open>continue\<close> after a call that returned
  an error, \<open>Succeeded\<close> the \<^verbatim>\<open>return\<close>.
\<close>

datatype 'r attempt = Skipped | Failed string | Succeeded 'r

definition sweepFailed :: "World \<Rightarrow> string \<Rightarrow> RateLimiter \<Rightarrow> string \<Rightarrow> Process \<Rightarrow> Process" where
  "sweepFailed w m limiter e p =
     (let (limiter1, p1) = RecordFailure w limiter (Some e) p;
          p2 = setLimiter m limiter1 p1
      in if isPermanentError w (Some e) then MarkPermanentFailure w m p2
         else if isRateLimitError w (Some e)
              then Sleep (500 * Millisecond) (storeMarkFailureWithType w m ''rate_limit'' p2)
         else storeMarkFailure w m p2)"

definition sweepSucceeded :: "string \<Rightarrow> RateLimiter \<Rightarrow> Process \<Rightarrow> Process" where
  "sweepSucceeded m limiter p = storeClearFailure m (setLimiter m (RecordSuccess limiter) p)"

definition tryCandidate ::
  "World \<Rightarrow> (nat \<Rightarrow> message list \<Rightarrow> string \<Rightarrow> string + 'r) \<Rightarrow> message list \<Rightarrow> Process \<Rightarrow> string
     \<Rightarrow> Process \<times> 'r attempt" where
  "tryCandidate w call msgs p m =
     (if IsPermanentlyFailed (permanentFails p) m then (p, Skipped)
      else if \<not> isModelInFilter p (displayNameOf m) then (p, Skipped)
      else (let ((skip, err), p1) = storeShouldSkip w m p
            in if err \<noteq> None \<or> skip then (p1, Skipped)
               else (let (limiter, p2) = GetLimiter m p1;
                         (limiter1, p3) = Wait w limiter p2;
                         p4 = WaitGlobal w (setLimiter m limiter1 p3);
                         (r, p5) = callProvider Sweep call msgs m p4
                     in case r of
                          Inl e \<Rightarrow> (sweepFailed w m limiter1 e p5, Failed e)
                        | Inr resp \<Rightarrow> (sweepSucceeded m limiter1 p5, Succeeded resp))))"

fun sweepFrom ::
  "World \<Rightarrow> (nat \<Rightarrow> message list \<Rightarrow> string \<Rightarrow> string + 'r) \<Rightarrow> message list \<Rightarrow> Process \<Rightarrow> string list
     \<Rightarrow> string option \<Rightarrow> Process \<times> (string + 'r \<times> string)" where
  "sweepFrom w call msgs p [] lastError =
     (case lastError of
        Some e \<Rightarrow> (p, Inl (''all models failed: '' @ e))
      | None \<Rightarrow> (p, Inl ''no free models available''))"
| "sweepFrom w call msgs p (m # ms) lastError =
     (case tryCandidate w call msgs p m of
        (p', Skipped) \<Rightarrow> sweepFrom w call msgs p' ms lastError
      | (p', Failed e) \<Rightarrow> sweepFrom w call msgs p' ms (Some e)
      | (p', Succeeded resp) \<Rightarrow> (p', Inr (resp, m)))"

text \<open>The loop runs over \<^verbatim>\<open>s.freeModels\<close>, with \<^verbatim>\<open>lastError\<close> unset at the start.\<close>

definition sweep ::
  "World \<Rightarrow> (nat \<Rightarrow> message list \<Rightarrow> string \<Rightarrow> string + 'r) \<Rightarrow> message list \<Rightarrow> Process
     \<Rightarrow> Process \<times> (string + 'r \<times> string)" where
  "sweep w call msgs p = sweepFrom w call msgs p (freeModels p) None"

definition getFreeChat ::
  "World \<Rightarrow> message list \<Rightarrow> Process \<Rightarrow> Process \<times> (string + ChatCompletionResponse \<times> string)" where
  "getFreeChat w msgs p = sweep w (Chat w) msgs p"

definition getFreeStream ::
  "World \<Rightarrow> message list \<Rightarrow> Process \<Rightarrow> Process \<times> (string + ChatCompletionStream \<times> string)" where
  "getFreeStream w msgs p = sweep w (ChatStream w) msgs p"

text \<open>
  \<^verbatim>\<open>getFreeChatForModel\<close> and \<^verbatim>\<open>getFreeStreamForModel\<close>: the direct attempt, then the
  sweep. They too differ in the method of the provider only.
\<close>

definition directThenSweep ::
  "World \<Rightarrow> (nat \<Rightarrow> message list \<Rightarrow> string \<Rightarrow> string + 'r) \<Rightarrow> message list \<Rightarrow> string \<Rightarrow> Process
     \<Rightarrow> Process \<times> (string + 'r \<times> string)" where
  "directThenSweep w call msgs requestedModel p =
     (let fullModelName = resolveDisplayNameToFullModel p requestedModel
      in if fullModelName \<noteq> requestedModel \<or> contains (freeModels p) fullModelName
         then (let ((skip, err), p1) = storeShouldSkip w fullModelName p
               in if err = None \<and> \<not> skip
                  then (let (r, p2) = callProvider Direct call msgs fullModelName p1
                        in case r of
                             Inr resp \<Rightarrow> (storeClearFailure fullModelName p2, Inr (resp, fullModelName))
                           | Inl e \<Rightarrow> sweep w call msgs (storeMarkFailure w fullModelName p2))
                  else sweep w call msgs p1)
         else sweep w call msgs p)"

definition getFreeChatForModel ::
  "World \<Rightarrow> message list \<Rightarrow> string \<Rightarrow> Process \<Rightarrow> Process \<times> (string + ChatCompletionResponse \<times> string)" where
  "getFreeChatForModel w msgs requestedModel p = directThenSweep w (Chat w) msgs requestedModel p"

definition getFreeStreamForModel ::
  "World \<Rightarrow> message list \<Rightarrow> string \<Rightarrow> Process \<Rightarrow> Process \<times> (string + ChatCompletionStream \<times> string)" where
  "getFreeStreamForModel w msgs requestedModel p = directThenSweep w (ChatStream w) msgs requestedModel p"

section \<open>The handlers\<close>

text \<open>
  \<^verbatim>\<open>handleListModels\<close> (\<^verbatim>\<open>/api/tags\<close>) when \<^verbatim>\<open>s.config.FreeMode\<close> is set: the loop over
  \<^verbatim>\<open>s.freeModels\<close>. An entry is its \<^verbatim>\<open>name\<close> and its \<^verbatim>\<open>model\<close>; the other fields of
  an entry are constants.
\<close>

record ModelEntry =
  entry_name :: string
  entry_model :: string

fun listFreeModels :: "World \<Rightarrow> string list \<Rightarrow> Process \<Rightarrow> ModelEntry list \<times> Process" where
  "listFreeModels w [] p = ([], p)"
| "listFreeModels w (freeModel # rest) p =
     (let ((skip, err), p1) = storeShouldSkip w freeModel p
      in if err \<noteq> None then listFreeModels w rest p1
         else if skip then listFreeModels w rest p1
         else (let displayName = displayNameOf freeModel
               in if \<not> isModelInFilter p1 displayName then listFreeModels w rest p1
                  else (let (newModels, p2) = listFreeModels w rest p1
                        in (\<lparr>entry_name = displayName, entry_model = displayName\<rparr> # newModels, p2))))"

definition handleListModels :: "World \<Rightarrow> Process \<Rightarrow> ModelEntry list \<times> Process" where
  "handleListModels w p = listFreeModels w (freeModels p) p"

text \<open>
  The streaming handlers, from the point where the stream has been obtained. What the
  client receives is the list of frames written, in order; the time stamps of the frames
  are left out. \<^verbatim>\<open>response.Choices[0]\<close> panics on a chunk without choices: the handler
  then ends in \<open>Panicked\<close>, with the frames written before.

  In the Ollama dialect a frame is a line of NDJSON: \<open>ChunkFrame\<close> has \<^verbatim>\<open>"done": false\<close>,
  \<open>FinalFrame\<close> has \<^verbatim>\<open>"done": true\<close> and the finish reason, \<open>ErrorFrame\<close> is
  \<^verbatim>\<open>{"error": ...}\<close> and has no \<^verbatim>\<open>done\<close> field.
\<close>

datatype handler_exit = Returned | Panicked

datatype ollama_frame =
  ChunkFrame string string
| FinalFrame string string
| ErrorFrame string

fun streamingChatLoop ::
  "string \<Rightarrow> ChatCompletionStreamChoice list list \<Rightarrow> stream_end \<Rightarrow> string \<Rightarrow> ollama_frame list \<times> handler_exit" where
  "streamingChatLoop fullModelName [] end lastFinishReason =
     (case end of
        EOF \<Rightarrow>
          ([FinalFrame fullModelName (if lastFinishReason = [] then ''stop'' else lastFinishReason)],
           Returned)
      | RecvError e \<Rightarrow> ([ErrorFrame (''Stream error: '' @ e)], Returned))"
| "streamingChatLoop fullModelName (choices # rest) end lastFinishReason =
     (case choices of
        [] \<Rightarrow> ([], Panicked)
      | choice # _ \<Rightarrow>
          (let lastFinishReason' =
                 (if StreamFinishReason choice \<noteq> [] then StreamFinishReason choice else lastFinishReason);
               (frames, exit) = streamingChatLoop fullModelName rest end lastFinishReason'
           in (ChunkFrame fullModelName (DeltaContent choice) # frames, exit)))"

definition handleStreamingChat :: "string \<Rightarrow> ChatCompletionStream \<Rightarrow> ollama_frame list \<times> handler_exit" where
  "handleStreamingChat fullModelName stream =
     streamingChatLoop fullModelName (chunks stream) (ending stream) []"

text \<open>
  In the chat-completions dialect a frame is a server-sent event: \<open>DataChunk\<close> is
  \<^verbatim>\<open>data: <json>\<close> with the model, the delta and the finish reason, \<open>DataDone\<close> is
  \<^verbatim>\<open>data: [DONE]\<close>.
\<close>

datatype sse_frame =
  DataChunk string string string
| DataDone

fun openAIStreamingLoop ::
  "string \<Rightarrow> ChatCompletionStreamChoice list list \<Rightarrow> stream_end \<Rightarrow> sse_frame list \<times> handler_exit" where
  "openAIStreamingLoop fullModelName [] end =
     (case end of
        EOF \<Rightarrow> ([DataDone], Returned)
      | RecvError e \<Rightarrow> ([], Returned))"
| "openAIStreamingLoop fullModelName (choices # rest) end =
     (case choices of
        [] \<Rightarrow> ([], Panicked)
      | choice # _ \<Rightarrow>
          (let (frames, exit) = openAIStreamingLoop fullModelName rest end
           in (DataChunk fullModelName (DeltaContent choice) (StreamFinishReason choice) # frames, exit)))"

definition handleOpenAIStreaming :: "string \<Rightarrow> ChatCompletionStream \<Rightarrow> sse_frame list \<times> handler_exit" where
  "handleOpenAIStreaming fullModelName stream =
     openAIStreamingLoop fullModelName (chunks stream) (ending stream)"

text \<open>
  \<^verbatim>\<open>handleStreamingGenerate\<close> (\<^verbatim>\<open>/api/generate\<close>), in the same NDJSON dialect and from
  the same point. \<open>ResponseFrame\<close> has \<^verbatim>\<open>"done": false\<close>; \<open>DoneFrame\<close> has
  \<^verbatim>\<open>"done": true\<close>, the reason \<^verbatim>\<open>stop\<close> and the count of the chunks written. A
  chunk without choices is passed over.
\<close>

datatype generate_frame =
  ResponseFrame string string
| DoneFrame string string nat

fun streamingGenerateLoop ::
  "string \<Rightarrow> ChatCompletionStreamChoice list list \<Rightarrow> stream_end \<Rightarrow> nat \<Rightarrow> generate_frame list" where
  "streamingGenerateLoop fullModelName [] end evalCount = [DoneFrame fullModelName ''stop'' evalCount]"
| "streamingGenerateLoop fullModelName (choices # rest) end evalCount =
     (case choices of
        [] \<Rightarrow> streamingGenerateLoop fullModelName rest end evalCount
      | choice # _ \<Rightarrow>
          ResponseFrame fullModelName (DeltaContent choice) #
            streamingGenerateLoop fullModelName rest end (evalCount + 1))"

definition handleStreamingGenerate :: "string \<Rightarrow> ChatCompletionStream \<Rightarrow> generate_frame list" where
  "handleStreamingGenerate fullModelName stream =
     streamingGenerateLoop fullModelName (chunks stream) (ending stream) 0"

section \<open>The pool of free models\<close>

record orModel =
  ID :: string
  ContextLength :: int
  SupportedParameters :: "string list"
  TopProviderContextLength :: int
  PricingPrompt :: string
  PricingCompletion :: string

fun supportsToolUse :: "string list \<Rightarrow> bool" where
  "supportsToolUse [] = False"
| "supportsToolUse (param # supportedParams) =
     (if param = ''tools'' \<or> param = ''tool_choice'' then True else supportsToolUse supportedParams)"

text \<open>
  The answer to \<^verbatim>\<open>GET /models\<close>: the request fails, or the status is not 200, or the
  body does not decode, or it decodes to the catalogue.
\<close>

datatype models_reply =
  RequestError string
| BadStatus string
| DecodeError string
| Catalog "orModel list"

fun collectItems :: "bool \<Rightarrow> orModel list \<Rightarrow> item list" where
  "collectItems toolUseOnly [] = []"
| "collectItems toolUseOnly (m # rest) =
     (if PricingPrompt m = ''0'' \<and> PricingCompletion m = ''0''
      then (if toolUseOnly \<and> \<not> supportsToolUse (SupportedParameters m)
            then collectItems toolUseOnly rest
            else (let ctx = (if TopProviderContextLength m = 0 then ContextLength m
                             else TopProviderContextLength m)
                  in \<lparr>item_id = ID m, item_ctx = ctx\<rparr> # collectItems toolUseOnly rest))
      else collectItems toolUseOnly rest)"

text \<open>\<open>toolUseOnlyEnv\<close> is the value of the environment variable \<^verbatim>\<open>TOOL_USE_ONLY\<close>.\<close>

definition fetchFreeModels :: "World \<Rightarrow> string \<Rightarrow> models_reply \<Rightarrow> string + string list" where
  "fetchFreeModels w toolUseOnlyEnv reply =
     (case reply of
        RequestError e \<Rightarrow> Inl e
      | BadStatus status \<Rightarrow> Inl (''unexpected status: '' @ status)
      | DecodeError e \<Rightarrow> Inl e
      | Catalog d \<Rightarrow>
          (let toolUseOnly = (ToLower (unicodeToLower w) toolUseOnlyEnv = ''true'');
               items = collectItems toolUseOnly d;
               sorted = sortSlice w (\<lambda>a b. item_ctx a > item_ctx b) items
           in Inr (map item_id sorted)))"

text \<open>
  The cache file: absent (or not to be \<^verbatim>\<open>Stat\<close>ed), or present with its modification
  time and its contents; \<open>readError\<close> is the error of \<^verbatim>\<open>os.ReadFile\<close>, if it fails.
  \<open>writeFails\<close> tells whether \<^verbatim>\<open>os.WriteFile\<close> fails, which the code ignores.
\<close>

record CacheFile =
  ModTime :: int
  contents :: string
  readError :: "string option"

record FileSystem =
  cacheFile :: "CacheFile option"
  writeFails :: bool

text \<open>The loop that reads the cache: split at newlines, trim, drop the empty lines.\<close>

fun cachedLines :: "string list \<Rightarrow> string list" where
  "cachedLines [] = []"
| "cachedLines (line # rest) =
     (let line' = TrimSpace line
      in if line' \<noteq> [] then line' # cachedLines rest else cachedLines rest)"

text \<open>
  \<open>cacheTTL\<close> is 24 hours, or what \<^verbatim>\<open>CACHE_TTL_HOURS\<close> parses to; \<open>now\<close> is the clock
  reading of \<^verbatim>\<open>time.Since\<close> and \<open>stamp\<close> the modification time that a write gives the
  file.
\<close>

definition ensureFreeModelFile ::
  "World \<Rightarrow> string \<Rightarrow> int \<Rightarrow> int \<Rightarrow> int \<Rightarrow> models_reply \<Rightarrow> FileSystem \<Rightarrow> (string + string list) \<times> FileSystem" where
  "ensureFreeModelFile w toolUseOnlyEnv cacheTTL now stamp reply fs =
     (case (case cacheFile fs of
              Some f \<Rightarrow>
                (if Since now (ModTime f) < cacheTTL
                 then (case readError f of
                         Some e \<Rightarrow> Some (Inl e)
                       | None \<Rightarrow> Some (Inr (cachedLines (Split (contents f) CHR 0x0A))))
                 else None)
            | None \<Rightarrow> None) of
        Some fresh \<Rightarrow> (fresh, fs)
      | None \<Rightarrow>
          (case fetchFreeModels w toolUseOnlyEnv reply of
             Inl err \<Rightarrow>
               (case cacheFile fs of
                  Some f \<Rightarrow>
                    (case readError f of
                       None \<Rightarrow> (Inr (cachedLines (Split (contents f) CHR 0x0A)), fs)
                     | Some _ \<Rightarrow> (Inl err, fs))
                | None \<Rightarrow> (Inl err, fs))
           | Inr models \<Rightarrow>
               (Inr models,
                if writeFails fs then fs
                else fs\<lparr>cacheFile :=
                        Some \<lparr>ModTime = stamp, contents = Join models [CHR 0x0A], readError = None\<rparr>\<rparr>)))"

section \<open>Definitions used in the statements\<close>


text \<open>
  A store with the default cooldowns and one row: \<^verbatim>\<open>p/a\<close> failed once, with a rate
  limit, at second 1000.
\<close>

definition rateLimitedStore :: FailureStore where
  "rateLimitedStore =
     NewFailureStore [''p/a'' \<mapsto> \<lparr>failed_at = 1000, failure_type = ''rate_limit'', failure_count = 1\<rparr>]"

text \<open>
  A stream that breaks after its first chunk, with an error that is not \<^verbatim>\<open>io.EOF\<close>.
\<close>

definition brokenStream :: ChatCompletionStream where
  "brokenStream =
     \<lparr>chunks = [[\<lparr>DeltaContent = ''Hel'', StreamFinishReason = ''''\<rparr>]],
      ending = RecvError ''connection reset''\<rparr>"

text \<open>
  What \<^verbatim>\<open>fetchFreeModels\<close> asks of \<^verbatim>\<open>sort.Slice\<close>, called with its \<open>less\<close>: the result is
  a rearrangement of the slice in which no element is \<open>less\<close> than one before it.
\<close>

definition sortSliceContract :: "World \<Rightarrow> bool" where
  "sortSliceContract w =
     (\<forall>xs. mset (sortSlice w (\<lambda>a b. item_ctx a > item_ctx b) xs) = mset xs \<and>
           sorted_wrt (\<lambda>a b. item_ctx a \<ge> item_ctx b) (sortSlice w (\<lambda>a b. item_ctx a > item_ctx b) xs))"

text \<open>
  The words of the specification: an entry is free when both prices are the string
  \<^verbatim>\<open>"0"\<close> (and, under the tool-use-only flag, when its supported parameters contain
  \<^verbatim>\<open>tools\<close> or \<^verbatim>\<open>tool_choice\<close>); its effective context length is that of the top
  provider if non-zero, else the top-level one.
\<close>

definition isFree :: "bool \<Rightarrow> orModel \<Rightarrow> bool" where
  "isFree toolUseOnly m =
     (PricingPrompt m = ''0'' \<and> PricingCompletion m = ''0'' \<and>
      (toolUseOnly \<longrightarrow> ''tools'' \<in> set (SupportedParameters m) \<or> ''tool_choice'' \<in> set (SupportedParameters m)))"

definition effectiveContextLength :: "orModel \<Rightarrow> int" where
  "effectiveContextLength m =
     (if TopProviderContextLength m \<noteq> 0 then TopProviderContextLength m else ContextLength m)"

text \<open>
  A world to run the code in: a sort by insertion for \<^verbatim>\<open>sort.Slice\<close>, a clock that
  stands still, a provider that always fails.
\<close>

fun insertItem :: "(item \<Rightarrow> item \<Rightarrow> bool) \<Rightarrow> item \<Rightarrow> item list \<Rightarrow> item list" where
  "insertItem lt x [] = [x]"
| "insertItem lt x (y # ys) = (if lt x y then x # y # ys else y # insertItem lt x ys)"

fun insertionSort :: "(item \<Rightarrow> item \<Rightarrow> bool) \<Rightarrow> item list \<Rightarrow> item list" where
  "insertionSort lt [] = []"
| "insertionSort lt (x # xs) = insertItem lt x (insertionSort lt xs)"

definition quietWorld :: World where
  "quietWorld =
     \<lparr>clock = (\<lambda>n. 0),
      Chat = (\<lambda>n msgs m. Inl ''upstream unavailable''),
      ChatStream = (\<lambda>n msgs m. Inl ''upstream unavailable''),
      calculateBackoff = (\<lambda>r t. 0),
      unicodeToLower = (\<lambda>s. s),
      sortSlice = insertionSort\<rparr>"

definition catalog :: "orModel list" where
  "catalog =
     [\<lparr>ID = ''p/small'', ContextLength = 4096, SupportedParameters = [''tools''],
       TopProviderContextLength = 0, PricingPrompt = ''0'', PricingCompletion = ''0''\<rparr>,
      \<lparr>ID = ''p/paid'', ContextLength = 200000, SupportedParameters = [''tools''],
       TopProviderContextLength = 0, PricingPrompt = ''0.000001'', PricingCompletion = ''0''\<rparr>,
      \<lparr>ID = ''p/large'', ContextLength = 1000, SupportedParameters = [],
       TopProviderContextLength = 131072, PricingPrompt = ''0'', PricingCompletion = ''0''\<rparr>]"

text \<open>
  For the cache: a file system without a cache file, the default time to live in hours,
  and a catalogue whose one id starts with a space.
\<close>

definition Hour :: int where
  "Hour = 60 * Minute"

definition noCache :: FileSystem where
  "noCache = \<lparr>cacheFile = None, writeFails = False\<rparr>"

definition paddedCatalog :: "orModel list" where
  "paddedCatalog =
     [\<lparr>ID = '' a'', ContextLength = 4096, SupportedParameters = [],
       TopProviderContextLength = 0, PricingPrompt = ''0'', PricingCompletion = ''0''\<rparr>]"

section \<open>The cooldown policy\<close>






text \<open>
  C1. \<^verbatim>\<open>ClearFailure\<close> leaves \<open>failed_at\<close> in the row and \<^verbatim>\<open>ShouldSkip\<close> has no case for
  the class \<^verbatim>\<open>cleared\<close>, which gets the base cooldown. So a model that failed with a
  rate limit 120 seconds ago, which \<^verbatim>\<open>ShouldSkip\<close> lets through (the rate-limit cooldown
  is one minute), is skipped again once its record has been cleared, until the five
  minutes of the base cooldown are over.
\<close>

theorem ClearFailure_then_ShouldSkip:
  "ShouldSkip rateLimitedStore (1120 * Second) ''p/a'' = (False, None) \<and>
   db (fst (ClearFailure rateLimitedStore ''p/a'')) ''p/a'' =
     Some \<lparr>failed_at = 1000, failure_type = ''cleared'', failure_count = 0\<rparr> \<and>
   ShouldSkip (fst (ClearFailure rateLimitedStore ''p/a'')) (1120 * Second) ''p/a'' = (True, None)"
  by (simp add: rateLimitedStore_def NewFailureStore_def ShouldSkip_def ClearFailure_def
      Since_def Sub_def sat64_def Unix_def Second_def Minute_def minDuration_def maxDuration_def)

section \<open>The end of a stream\<close>

text \<open>
  C3. \<^verbatim>\<open>Recv\<close> returns an error that is not \<^verbatim>\<open>io.EOF\<close> after one chunk has been
  written. \<^verbatim>\<open>handleStreamingChat\<close> writes the chunk and then an error frame, with no
  \<^verbatim>\<open>done: true\<close> frame; \<^verbatim>\<open>handleOpenAIStreaming\<close> writes the chunk and nothing after
  it, with no \<^verbatim>\<open>data: [DONE]\<close>. On the same stream \<^verbatim>\<open>handleStreamingGenerate\<close>, which
  leaves its loop on any error, writes the chunk and then its \<^verbatim>\<open>done: true\<close> frame.
\<close>

theorem stream_error_frames:
  "handleStreamingChat ''p/a'' brokenStream =
     ([ChunkFrame ''p/a'' ''Hel'', ErrorFrame ''Stream error: connection reset''], Returned) \<and>
   handleOpenAIStreaming ''p/a'' brokenStream = ([DataChunk ''p/a'' ''Hel'' ''''], Returned) \<and>
   handleStreamingGenerate ''p/a'' brokenStream =
     [ResponseFrame ''p/a'' ''Hel'', DoneFrame ''p/a'' ''stop'' 1]"
  by (simp add: handleStreamingChat_def handleOpenAIStreaming_def handleStreamingGenerate_def
      brokenStream_def)

section \<open>Fetching the pool\<close>

lemma supportsToolUse_iff:
  "supportsToolUse ps = (''tools'' \<in> set ps \<or> ''tool_choice'' \<in> set ps)"
  by (induction ps) auto

lemma collectItems_eq:
  "collectItems t d =
     map (\<lambda>m. \<lparr>item_id = ID m, item_ctx = effectiveContextLength m\<rparr>) (filter (isFree t) d)"
  by (induction d) (auto simp: isFree_def effectiveContextLength_def supportsToolUse_iff Let_def)

lemma fetchFreeModels_Catalog:
  "fetchFreeModels w env (Catalog d) =
     Inr (map item_id (sortSlice w (\<lambda>a b. item_ctx a > item_ctx b)
            (collectItems (ToLower (unicodeToLower w) env = ''true'') d)))"
  unfolding fetchFreeModels_def Let_def by (simp only: models_reply.case)

text \<open>
  C7. For every catalogue, and \<^verbatim>\<open>sort.Slice\<close> doing what it is documented to do,
  \<^verbatim>\<open>fetchFreeModels\<close> returns the ids of a list of items that is a rearrangement of the
  free entries of the catalogue (each with its effective context length; restricted to
  the tool-capable ones when \<^verbatim>\<open>TOOL_USE_ONLY\<close> reads \<^verbatim>\<open>true\<close>) and that is ordered by
  non-increasing effective context length.
\<close>

theorem fetchFreeModels_sorted_free:
  assumes "sortSliceContract w"
  shows "\<exists>items. fetchFreeModels w env (Catalog d) = Inr (map item_id items) \<and>
           mset items = mset (map (\<lambda>m. \<lparr>item_id = ID m, item_ctx = effectiveContextLength m\<rparr>)
                               (filter (isFree (ToLower (unicodeToLower w) env = ''true'')) d)) \<and>
           sorted_wrt (\<lambda>a b. item_ctx a \<ge> item_ctx b) items"
proof -
  let ?t = "ToLower (unicodeToLower w) env = ''true''"
  let ?items = "sortSlice w (\<lambda>a b. item_ctx a > item_ctx b) (collectItems ?t d)"
  have c: "mset ?items = mset (collectItems ?t d) \<and> sorted_wrt (\<lambda>a b. item_ctx a \<ge> item_ctx b) ?items"
    using assms unfolding sortSliceContract_def by blast
  have 1: "fetchFreeModels w env (Catalog d) = Inr (map item_id ?items)"
    by (rule fetchFreeModels_Catalog)
  have 2: "mset ?items = mset (map (\<lambda>m. \<lparr>item_id = ID m, item_ctx = effectiveContextLength m\<rparr>)
                               (filter (isFree ?t) d))"
    using c by (simp only: collectItems_eq)
  have 3: "sorted_wrt (\<lambda>a b. item_ctx a \<ge> item_ctx b) ?items"
    using c by blast
  show ?thesis
    by (rule exI[of _ ?items]) (intro conjI 1 2 3)
qed

lemma mset_insertItem: "mset (insertItem lt x ys) = add_mset x (mset ys)"
  by (induction ys) auto

lemma mset_insertionSort: "mset (insertionSort lt xs) = mset xs"
  by (induction xs) (auto simp: mset_insertItem)

lemma set_insertItem: "set (insertItem lt x ys) = insert x (set ys)"
  by (induction ys) auto

lemma sorted_insertItem:
  "sorted_wrt (\<lambda>a b. item_ctx a \<ge> item_ctx b) ys \<Longrightarrow>
   sorted_wrt (\<lambda>a b. item_ctx a \<ge> item_ctx b) (insertItem (\<lambda>a b. item_ctx a > item_ctx b) x ys)"
  by (induction ys) (auto simp: set_insertItem)

lemma sorted_insertionSort:
  "sorted_wrt (\<lambda>a b. item_ctx a \<ge> item_ctx b) (insertionSort (\<lambda>a b. item_ctx a > item_ctx b) xs)"
  by (induction xs) (auto simp: sorted_insertItem)

lemma quietWorld_contract: "sortSliceContract quietWorld"
  by (simp add: sortSliceContract_def quietWorld_def mset_insertionSort sorted_insertionSort)

lemma ToLower_empty: "ToLower f [] = []"
  by (simp add: ToLower_def isASCII_def)

lemma ToLower_TRUE: "ToLower f ''TRUE'' = ''true''"
  by (simp add: ToLower_def isASCII_def lowerByte_def char_of_eq_iff)

theorem fetchFreeModels_sorted_free_witness:
  "sortSliceContract quietWorld \<and>
   fetchFreeModels quietWorld [] (Catalog catalog) = Inr [''p/large'', ''p/small''] \<and>
   fetchFreeModels quietWorld ''TRUE'' (Catalog catalog) = Inr [''p/small'']"
proof -
  have c: "sortSliceContract quietWorld" by (rule quietWorld_contract)
  have s: "sortSlice quietWorld = insertionSort" by (simp add: quietWorld_def)
  have 1: "fetchFreeModels quietWorld [] (Catalog catalog) = Inr [''p/large'', ''p/small'']"
    by (simp add: fetchFreeModels_Catalog ToLower_empty s catalog_def)
  have 2: "fetchFreeModels quietWorld ''TRUE'' (Catalog catalog) = Inr [''p/small'']"
    by (simp add: fetchFreeModels_Catalog ToLower_TRUE s catalog_def)
  show ?thesis
    using fetchFreeModels_sorted_free [OF c, of "[]" catalog] c 1 2 by blast
qed

section \<open>The cache of the pool\<close>

lemma Split_no_sep: "sep \<notin> set x \<Longrightarrow> Split x sep = [x]"
  by (induction x) auto

lemma Split_append_sep: "sep \<notin> set x \<Longrightarrow> Split (x @ sep # rest) sep = x # Split rest sep"
  by (induction x) auto

lemma Split_Join:
  "xs \<noteq> [] \<Longrightarrow> \<forall>x \<in> set xs. sep \<notin> set x \<Longrightarrow> Split (Join xs [sep]) sep = xs"
proof (induction xs "[sep]" rule: Join.induct)
  case 1
  then show ?case by simp
next
  case (2 x)
  then show ?case by (simp add: Split_no_sep)
next
  case (3 x y xs)
  then show ?case by (simp add: Split_append_sep)
qed

lemma TrimSpace_empty: "TrimSpace [] = []"
  by (simp add: TrimSpace_def TrimRightSpace_def)

lemma cachedLines_id:
  "\<forall>x \<in> set xs. x \<noteq> [] \<and> TrimSpace x = x \<Longrightarrow> cachedLines xs = xs"
  by (induction xs) (auto simp: Let_def)

lemma read_back:
  assumes "\<forall>m \<in> set models. m \<noteq> [] \<and> TrimSpace m = m \<and> CHR 0x0A \<notin> set m"
  shows "cachedLines (Split (Join models [CHR 0x0A]) CHR 0x0A) = models"
proof (cases "models = []")
  case True
  then show ?thesis by (simp add: TrimSpace_empty Let_def)
next
  case False
  then have "Split (Join models [CHR 0x0A]) CHR 0x0A = models"
    using assms by (intro Split_Join) auto
  then show ?thesis using assms by (simp add: cachedLines_id)
qed

text \<open>
  C8, amended. Take a list of identifiers that are not empty, that \<^verbatim>\<open>TrimSpace\<close> leaves
  as they are (no white space at either end) and that contain no newline. When
  \<^verbatim>\<open>ensureFreeModelFile\<close> fetches this list (no fresh cache, the fetch succeeds, the
  write succeeds), it returns it and writes it one id per line; a later call that finds
  the file fresh returns the identical list, and leaves the file as it is.
\<close>

theorem cache_round_trip:
  assumes ids: "\<forall>m \<in> set models. m \<noteq> [] \<and> TrimSpace m = m \<and> CHR 0x0A \<notin> set m"
    and stale: "case cacheFile fs of None \<Rightarrow> True | Some f \<Rightarrow> \<not> Since now (ModTime f) < cacheTTL"
    and fetched: "fetchFreeModels w env reply = Inr models"
    and writable: "\<not> writeFails fs"
    and fresh: "Since now' stamp < cacheTTL'"
  shows "case ensureFreeModelFile w env cacheTTL now stamp reply fs of
           (r, fs') \<Rightarrow>
             r = Inr models \<and>
             cacheFile fs' = Some \<lparr>ModTime = stamp, contents = Join models [CHR 0x0A], readError = None\<rparr> \<and>
             ensureFreeModelFile w env' cacheTTL' now' stamp' reply' fs' = (Inr models, fs')"
proof -
  let ?fs' = "fs\<lparr>cacheFile := Some \<lparr>ModTime = stamp, contents = Join models [CHR 0x0A], readError = None\<rparr>\<rparr>"
  have 1: "ensureFreeModelFile w env cacheTTL now stamp reply fs = (Inr models, ?fs')"
    using stale fetched writable
    by (cases "cacheFile fs") (simp_all add: ensureFreeModelFile_def)
  have 2: "ensureFreeModelFile w env' cacheTTL' now' stamp' reply' ?fs' = (Inr models, ?fs')"
    using fresh read_back[OF ids] by (simp add: ensureFreeModelFile_def)
  show ?thesis using 2 by (simp add: 1)
qed

lemma fetch_padded: "fetchFreeModels quietWorld [] (Catalog paddedCatalog) = Inr ['' a'']"
  by (simp add: fetchFreeModels_Catalog ToLower_empty quietWorld_def paddedCatalog_def)

lemma TrimSpace_padded: "TrimSpace '' a'' = ''a''"
  by (simp add: TrimSpace_def TrimRightSpace_def asciiSpace_def space2_def)

text \<open>
  C8, as the claim states it, fails: the id \<^verbatim>\<open>" a"\<close> is not empty after trimming and
  has no newline, but it is written with its space and read back without it.
\<close>

theorem cache_round_trip_counterexample:
  "TrimSpace '' a'' \<noteq> [] \<and> CHR 0x0A \<notin> set '' a'' \<and>
   ensureFreeModelFile quietWorld [] (24 * Hour) 0 0 (Catalog paddedCatalog) noCache =
     (Inr ['' a''],
      \<lparr>cacheFile = Some \<lparr>ModTime = 0, contents = '' a'', readError = None\<rparr>, writeFails = False\<rparr>) \<and>
   ensureFreeModelFile quietWorld [] (24 * Hour) Second 0 (RequestError ''offline'')
       \<lparr>cacheFile = Some \<lparr>ModTime = 0, contents = '' a'', readError = None\<rparr>, writeFails = False\<rparr> =
     (Inr [''a''],
      \<lparr>cacheFile = Some \<lparr>ModTime = 0, contents = '' a'', readError = None\<rparr>, writeFails = False\<rparr>)"
  by (simp add: ensureFreeModelFile_def fetch_padded TrimSpace_padded noCache_def Since_def Sub_def
      sat64_def minDuration_def maxDuration_def Hour_def Minute_def Second_def Let_def)

lemma catalog_ids_clean:
  "\<forall>m \<in> set [''p/large'', ''p/small'']. m \<noteq> [] \<and> TrimSpace m = m \<and> CHR 0x0A \<notin> set m"
  by (simp add: TrimSpace_def TrimRightSpace_def asciiSpace_def space2_def space3_def)

lemma fetch_catalog: "fetchFreeModels quietWorld [] (Catalog catalog) = Inr [''p/large'', ''p/small'']"
  by (simp add: fetchFreeModels_Catalog ToLower_empty quietWorld_def catalog_def)

theorem cache_round_trip_witness:
  "ensureFreeModelFile quietWorld [] (24 * Hour) 0 0 (Catalog catalog) noCache =
     (Inr [''p/large'', ''p/small''],
      \<lparr>cacheFile = Some \<lparr>ModTime = 0, contents = ''p/large'' @ [CHR 0x0A] @ ''p/small'', readError = None\<rparr>,
       writeFails = False\<rparr>) \<and>
   ensureFreeModelFile quietWorld [] (24 * Hour) Second 0 (RequestError ''offline'')
       \<lparr>cacheFile = Some \<lparr>ModTime = 0, contents = ''p/large'' @ [CHR 0x0A] @ ''p/small'', readError = None\<rparr>,
        writeFails = False\<rparr> =
     (Inr [''p/large'', ''p/small''],
      \<lparr>cacheFile = Some \<lparr>ModTime = 0, contents = ''p/large'' @ [CHR 0x0A] @ ''p/small'', readError = None\<rparr>,
       writeFails = False\<rparr>)"
proof -
  have stale: "case cacheFile noCache of None \<Rightarrow> True | Some f \<Rightarrow> \<not> Since 0 (ModTime f) < 24 * Hour"
    by (simp add: noCache_def)
  have writable: "\<not> writeFails noCache" by (simp add: noCache_def)
  have fresh: "Since Second 0 < 24 * Hour"
    by (simp add: Since_def Sub_def sat64_def minDuration_def maxDuration_def Hour_def Minute_def Second_def)
  have 1: "ensureFreeModelFile quietWorld [] (24 * Hour) 0 0 (Catalog catalog) noCache =
     (Inr [''p/large'', ''p/small''],
      \<lparr>cacheFile = Some \<lparr>ModTime = 0, contents = ''p/large'' @ [CHR 0x0A] @ ''p/small'', readError = None\<rparr>,
       writeFails = False\<rparr>)"
    by (simp add: ensureFreeModelFile_def fetch_catalog noCache_def)
  show ?thesis
    using cache_round_trip [OF catalog_ids_clean stale fetch_catalog writable fresh,
        where env' = "[]" and stamp' = 0 and reply' = "RequestError ''offline''"]
    by (simp add: 1)
qed

end
